theory Spec2Isabelle
  imports Main "HOL-Library.AList" "HOL-Library.Sublist"
begin

section \<open>Values, errors and formatting\<close>

text \<open>
  The two resources of \<^verbatim>\<open>src/vault/resource_terraform_cloud_secret_backend_role.go\<close>
  (the Terraform Cloud secret backend role and the identity entity alias) are embedded
  as functions over explicit state: the resource data \<open>d\<close> of the handler, and the
  list of requests sent to the remote so far. Calls to \<^verbatim>\<open>log.Printf\<close> have no
  effect on either and are left out.

  A Go \<^verbatim>\<open>interface{}\<close> value, as it is stored in a payload or decoded from a
  response: nil, a boolean, a number, a string, a slice or a map with string keys.
\<close>

datatype val =
    VNil
  | VBool bool
  | VInt int
  | VString string
  | VList "val list"
  | VMap "(string \<times> val) list"

text \<open>
  A handler ends by returning nil, by returning an error (identified with the text of
  its message) or by a run-time panic.
\<close>

datatype error = Error string | Panic string

definition message :: "error \<Rightarrow> string" where
  "message e = (case e of Error m \<Rightarrow> m | Panic m \<Rightarrow> m)"

text \<open>\<^verbatim>\<open>m[k]\<close> on a Go map: the nil value for a key that is absent.\<close>

definition index :: "(string \<times> val) list \<Rightarrow> string \<Rightarrow> val" where
  "index m k = (case map_of m k of None \<Rightarrow> VNil | Some v \<Rightarrow> v)"

text \<open>\<^verbatim>\<open>m[k] = v\<close> on a Go map.\<close>

definition assign :: "(string \<times> val) list \<Rightarrow> string \<Rightarrow> val \<Rightarrow> (string \<times> val) list" where
  "assign m k v = AList.update k v m"

text \<open>The verb \<^verbatim>\<open>%d\<close> of \<^verbatim>\<open>fmt\<close> on a length.\<close>

fun decimal :: "nat \<Rightarrow> string" where
  "decimal n =
     (if n < 10 then [char_of (48 + n)]
      else decimal (n div 10) @ [char_of (48 + n mod 10)])"

declare decimal.simps [simp del]

text \<open>
  The verb \<^verbatim>\<open>%q\<close> of \<^verbatim>\<open>fmt\<close> on a string (\<^verbatim>\<open>strconv.Quote\<close>): the
  text between double quotes, with the double quote and the backslash escaped, the
  control characters written as escapes, and printable ASCII kept. The definition is
  Go's on ASCII text. A byte from 0x80 on is kept as it is, which is what Go does for
  the bytes of a printable character outside ASCII; Go writes a byte that is not valid
  UTF-8 and a character that is not printable as an escape, which the definition does
  not follow.
\<close>

definition hex_digit :: "nat \<Rightarrow> char" where
  "hex_digit n = ''0123456789abcdef'' ! (n mod 16)"

definition quote_char :: "char \<Rightarrow> string" where
  "quote_char c =
     (if c = CHR 0x22 \<or> c = CHR 0x5C then [CHR 0x5C, c]
      else if c = CHR 0x07 then [CHR 0x5C, CHR ''a'']
      else if c = CHR 0x08 then [CHR 0x5C, CHR ''b'']
      else if c = CHR 0x0C then [CHR 0x5C, CHR ''f'']
      else if c = CHR 0x0A then [CHR 0x5C, CHR ''n'']
      else if c = CHR 0x0D then [CHR 0x5C, CHR ''r'']
      else if c = CHR 0x09 then [CHR 0x5C, CHR ''t'']
      else if c = CHR 0x0B then [CHR 0x5C, CHR ''v'']
      else if (of_char c :: nat) < 0x20 \<or> c = CHR 0x7F
        then [CHR 0x5C, CHR ''x'', hex_digit (of_char c div 16), hex_digit (of_char c)]
      else [c])"

definition go_quote :: "string \<Rightarrow> string" where
  "go_quote s = CHR 0x22 # concat (map quote_char s) @ [CHR 0x22]"


text \<open>\<^verbatim>\<open>strings.Trim(s, "/")\<close>: the leading and the trailing slashes removed.\<close>

definition trim_slash :: "string \<Rightarrow> string" where
  "trim_slash s =
     rev (dropWhile (\<lambda>c. c = CHR ''/'') (rev (dropWhile (\<lambda>c. c = CHR ''/'') s)))"

section \<open>The two path patterns\<close>

text \<open>
  The patterns \<^verbatim>\<open>^(.+)/role/.+$\<close> and \<^verbatim>\<open>^.+/role/(.+$)\<close> are built from three
  pieces, each taking the rest of the pattern as a continuation. Go's matcher prefers,
  at a greedy \<^verbatim>\<open>.+\<close>, one more character over going on with the pattern, so
  \<open>any_plus\<close> tries the longer match first; \<^verbatim>\<open>.\<close> matches every character but
  the newline, and \<^verbatim>\<open>$\<close> (no flag is set) matches at the end of the text only.
  \<open>any_plus k s\<close> returns the text \<^verbatim>\<open>.+\<close> has taken and what \<open>k\<close> returns on
  the rest.
\<close>

fun any_plus :: "(string \<Rightarrow> 'a option) \<Rightarrow> string \<Rightarrow> (string \<times> 'a) option" where
  "any_plus k [] = None"
| "any_plus k (c # cs) =
     (if c = CHR 0x0A then None
      else (case any_plus k cs of
              Some (p, r) \<Rightarrow> Some (c # p, r)
            | None \<Rightarrow> (case k cs of Some r \<Rightarrow> Some ([c], r) | None \<Rightarrow> None)))"

definition lit :: "string \<Rightarrow> (string \<Rightarrow> 'a option) \<Rightarrow> string \<Rightarrow> 'a option" where
  "lit l k s = (if take (length l) s = l then k (drop (length l) s) else None)"

definition eos :: "string \<Rightarrow> unit option" where
  "eos s = (if s = [] then Some () else None)"

text \<open>
  \<^verbatim>\<open>FindStringSubmatch\<close> of each compiled pattern: the whole match and the text of
  the one group, or the empty slice when the pattern does not match. Both patterns are
  anchored at both ends, so the whole match is the path.
\<close>

definition terraformCloudSecretBackendRoleBackendFromPathRegex :: "string \<Rightarrow> string list" where
  "terraformCloudSecretBackendRoleBackendFromPathRegex path =
     (case any_plus (lit ''/role/'' (any_plus eos)) path of
        None \<Rightarrow> []
      | Some (backend, name, u) \<Rightarrow> [path, backend])"

definition terraformCloudSecretBackendRoleNameFromPathRegex :: "string \<Rightarrow> string list" where
  "terraformCloudSecretBackendRoleNameFromPathRegex path =
     (case any_plus (lit ''/role/'' (any_plus eos)) path of
        None \<Rightarrow> []
      | Some (backend, name, u) \<Rightarrow> [path, name])"

definition MatchString :: "(string \<Rightarrow> string list) \<Rightarrow> string \<Rightarrow> bool" where
  "MatchString re s \<longleftrightarrow> re s \<noteq> []"

section \<open>Role paths\<close>

definition terraformCloudSecretBackendRolePath :: "string \<Rightarrow> string \<Rightarrow> string" where
  "terraformCloudSecretBackendRolePath backend name = trim_slash backend @ ''/role/'' @ name"

definition terraformCloudSecretBackendRoleNameFromPath :: "string \<Rightarrow> error + string" where
  "terraformCloudSecretBackendRoleNameFromPath path =
     (if \<not> MatchString terraformCloudSecretBackendRoleNameFromPathRegex path
      then Inl (Error ''no name found'')
      else
        let res = terraformCloudSecretBackendRoleNameFromPathRegex path in
        if length res \<noteq> 2
        then Inl (Error (''unexpected number of matches ('' @ decimal (length res) @ '') for name''))
        else Inr (res ! 1))"

definition terraformCloudSecretBackendRoleBackendFromPath :: "string \<Rightarrow> error + string" where
  "terraformCloudSecretBackendRoleBackendFromPath path =
     (if \<not> MatchString terraformCloudSecretBackendRoleBackendFromPathRegex path
      then Inl (Error ''no backend found'')
      else
        let res = terraformCloudSecretBackendRoleBackendFromPathRegex path in
        if length res \<noteq> 2
        then Inl (Error (''unexpected number of matches ('' @ decimal (length res) @ '') for backend''))
        else Inr (res ! 1))"



section \<open>Resource data and the remote client\<close>

text \<open>
  The resource data of the framework (\<^verbatim>\<open>schema.ResourceData\<close>), one record for each
  schema of the file: the id, and for every attribute of the schema its value when the
  attribute exists, typed as the schema types it (\<^verbatim>\<open>TypeString\<close>, \<^verbatim>\<open>TypeInt\<close>,
  \<^verbatim>\<open>TypeMap\<close>).
\<close>

record role_data =
  role_id :: string
  role_name :: "string option"
  role_path :: "string option"
  role_backend :: "string option"
  role_organization :: "string option"
  role_team_id :: "string option"
  role_user_id :: "string option"
  role_max_ttl :: "int option"
  role_ttl :: "int option"

record alias_data =
  alias_id :: string
  alias_name :: "string option"
  alias_mount_accessor :: "string option"
  alias_canonical_id :: "string option"
  alias_custom_metadata :: "(string \<times> val) list option"

text \<open>
  The framework's accessors. \<^verbatim>\<open>Get\<close> returns the value, or the zero value of the
  schema type when the attribute does not exist. \<^verbatim>\<open>GetOk\<close> returns it with a flag
  that holds when the attribute exists and is not the zero value; the flag of
  \<^verbatim>\<open>GetOkExists\<close> holds when the attribute exists, zero or not.
\<close>

definition Get_string :: "string option \<Rightarrow> string" where
  "Get_string a = (case a of None \<Rightarrow> [] | Some s \<Rightarrow> s)"

definition Get_int :: "int option \<Rightarrow> int" where
  "Get_int a = (case a of None \<Rightarrow> 0 | Some n \<Rightarrow> n)"

definition Get_map :: "(string \<times> val) list option \<Rightarrow> (string \<times> val) list" where
  "Get_map a = (case a of None \<Rightarrow> [] | Some m \<Rightarrow> m)"

definition GetOk_string :: "string option \<Rightarrow> string \<times> bool" where
  "GetOk_string a = (Get_string a, a \<noteq> None \<and> Get_string a \<noteq> [])"

definition GetOkExists_string :: "string option \<Rightarrow> string \<times> bool" where
  "GetOkExists_string a = (Get_string a, a \<noteq> None)"

definition GetOkExists_int :: "int option \<Rightarrow> int \<times> bool" where
  "GetOkExists_int a = (Get_int a, a \<noteq> None)"

text \<open>The text of a number, as \<^verbatim>\<open>json.Number\<close> holds it.\<close>

definition show_int :: "int \<Rightarrow> string" where
  "show_int n = (if n < 0 then CHR ''-'' # decimal (nat (- n)) else decimal (nat n))"

text \<open>
  \<^verbatim>\<open>d.Set(key, v)\<close> decodes \<open>v\<close> strictly into the schema type of the attribute.
  On nil the zero value of the type is stored, and the attribute exists afterwards. A
  string attribute takes a string, and a number by its text; an integer attribute
  takes a number that fits 64 bits; a map attribute takes a map. Any other value is an
  error, which leaves the attribute as it was.
\<close>

definition Set_string :: "val \<Rightarrow> error + string option" where
  "Set_string v =
     (case v of
        VNil \<Rightarrow> Inr (Some [])
      | VString s \<Rightarrow> Inr (Some s)
      | VInt n \<Rightarrow> Inr (Some (show_int n))
      | _ \<Rightarrow> Inl (Error ''expected type string''))"

definition Set_int :: "val \<Rightarrow> error + int option" where
  "Set_int v =
     (case v of
        VNil \<Rightarrow> Inr (Some 0)
      | VInt n \<Rightarrow>
          if - (2 ^ 63) \<le> n \<and> n < 2 ^ 63 then Inr (Some n)
          else Inl (Error ''value out of range'')
      | _ \<Rightarrow> Inl (Error ''expected type int''))"

definition Set_map :: "val \<Rightarrow> error + (string \<times> val) list option" where
  "Set_map v =
     (case v of
        VNil \<Rightarrow> Inr (Some [])
      | VMap m \<Rightarrow> Inr (Some m)
      | _ \<Rightarrow> Inl (Error ''expected type map''))"

text \<open>A \<^verbatim>\<open>d.Set\<close> whose error the caller drops.\<close>

definition Set_or_keep :: "error + 'a \<Rightarrow> 'a \<Rightarrow> 'a" where
  "Set_or_keep r old = (case r of Inl e \<Rightarrow> old | Inr new \<Rightarrow> new)"

text \<open>
  The client (\<^verbatim>\<open>client.Logical()\<close>) sends a request and returns a secret or an
  error. A response is a transport error with its text, no secret and no error
  (\<^verbatim>\<open>nil, nil\<close>), or a secret, of which the handlers read only \<^verbatim>\<open>Data\<close>. The
  remote is any function from the requests sent so far, the last one being the one to
  answer, to a response: it may keep state and it may fail.
\<close>

datatype request =
    Read string
  | Write string "(string \<times> val) list"
  | Delete string

datatype response =
    Failed string
  | Absent
  | Found "(string \<times> val) list"

type_synonym client = "request list \<Rightarrow> response"

definition Logical :: "client \<Rightarrow> request \<Rightarrow> request list \<Rightarrow> response \<times> request list" where
  "Logical c r h = (c (h @ [r]), h @ [r])"

section \<open>The Terraform Cloud secret backend role\<close>






definition terraformCloudSecretBackendRoleGetBackend :: "role_data \<Rightarrow> string" where
  "terraformCloudSecretBackendRoleGetBackend d =
     (case GetOk_string (role_backend d) of
        (v, True) \<Rightarrow> v
      | (v, False) \<Rightarrow>
          (case GetOk_string (role_path d) of
             (v, True) \<Rightarrow> v
           | (v, False) \<Rightarrow> []))"

definition terraformCloudSecretBackendRoleRead ::
  "client \<Rightarrow> role_data \<Rightarrow> request list \<Rightarrow> error option \<times> role_data \<times> request list" where
  "terraformCloudSecretBackendRoleRead c d h =
     (let path = role_id d in
      case terraformCloudSecretBackendRoleNameFromPath path of
        Inl err \<Rightarrow>
          (Some (Error (''invalid role ID '' @ go_quote path @ '': '' @ message err)),
           d\<lparr>role_id := []\<rparr>, h)
      | Inr name \<Rightarrow>
          (case terraformCloudSecretBackendRoleBackendFromPath path of
             Inl err \<Rightarrow>
               (Some (Error (''invalid role ID '' @ go_quote path @ '': '' @ message err)),
                d\<lparr>role_id := []\<rparr>, h)
           | Inr backend \<Rightarrow>
               (case Logical c (Read path) h of
                  (Failed err, h1) \<Rightarrow>
                    (Some (Error (''error reading role configuration for '' @ go_quote path
                       @ '': '' @ err)), d, h1)
                | (Absent, h1) \<Rightarrow> (Some (Error ''resource not found''), d, h1)
                | (Found data, h1) \<Rightarrow>
                    (let d = d\<lparr>role_name := Some name\<rparr>;
                         d = (if snd (GetOk_string (role_path d))
                              then d\<lparr>role_path := Some backend\<rparr>
                              else d\<lparr>role_backend := Some backend\<rparr>);
                         d = d\<lparr>role_organization :=
                               Set_or_keep (Set_string (index data ''organization'')) (role_organization d)\<rparr>;
                         d = d\<lparr>role_team_id :=
                               Set_or_keep (Set_string (index data ''team_id'')) (role_team_id d)\<rparr>;
                         d = d\<lparr>role_user_id :=
                               Set_or_keep (Set_string (index data ''user_id'')) (role_user_id d)\<rparr>;
                         d = d\<lparr>role_max_ttl :=
                               Set_or_keep (Set_int (index data ''max_ttl'')) (role_max_ttl d)\<rparr>;
                         d = d\<lparr>role_ttl :=
                               Set_or_keep (Set_int (index data ''ttl'')) (role_ttl d)\<rparr>
                     in (None, d, h1)))))"

text \<open>The payload of the write, built from the attributes that exist.\<close>

definition terraformCloudSecretBackendRoleWritePayload :: "role_data \<Rightarrow> (string \<times> val) list" where
  "terraformCloudSecretBackendRoleWritePayload d =
     (let payload = [];
          payload = (case GetOkExists_int (role_max_ttl d) of
                       (v, ok) \<Rightarrow> if ok then assign payload ''max_ttl'' (VInt v) else payload);
          payload = (case GetOkExists_int (role_ttl d) of
                       (v, ok) \<Rightarrow> if ok then assign payload ''ttl'' (VInt v) else payload);
          payload = (case GetOkExists_string (role_organization d) of
                       (v, ok) \<Rightarrow> if ok then assign payload ''organization'' (VString v) else payload);
          payload = (case GetOkExists_string (role_team_id d) of
                       (v, ok) \<Rightarrow> if ok then assign payload ''team_id'' (VString v) else payload);
          payload = (case GetOkExists_string (role_user_id d) of
                       (v, ok) \<Rightarrow> if ok then assign payload ''user_id'' (VString v) else payload)
      in payload)"

definition terraformCloudSecretBackendRoleWrite ::
  "client \<Rightarrow> role_data \<Rightarrow> request list \<Rightarrow> error option \<times> role_data \<times> request list" where
  "terraformCloudSecretBackendRoleWrite c d h =
     (let name = Get_string (role_name d);
          backend = terraformCloudSecretBackendRoleGetBackend d
      in if backend = []
         then (Some (Error (''No backend specified for Terraform Cloud secret backend role '' @ name)),
               d, h)
         else
           let path = terraformCloudSecretBackendRolePath backend name;
               payload = terraformCloudSecretBackendRoleWritePayload d
           in case Logical c (Write path payload) h of
                (Failed err, h1) \<Rightarrow>
                  (Some (Error (''error writing role configuration for '' @ go_quote path
                     @ '': '' @ err)), d, h1)
              | (resp, h1) \<Rightarrow> terraformCloudSecretBackendRoleRead c (d\<lparr>role_id := path\<rparr>) h1)"


definition terraformCloudSecretBackendRoleDelete ::
  "client \<Rightarrow> role_data \<Rightarrow> request list \<Rightarrow> error option \<times> role_data \<times> request list" where
  "terraformCloudSecretBackendRoleDelete c d h =
     (let path = role_id d in
      case Logical c (Delete path) h of
        (Failed err, h1) \<Rightarrow>
          (Some (Error (''error deleting Terraform Cloud backend role at '' @ go_quote path
             @ '': '' @ err)), d, h1)
      | (resp, h1) \<Rightarrow> (None, d, h1))"

definition terraformCloudSecretBackendRoleExists ::
  "client \<Rightarrow> role_data \<Rightarrow> request list \<Rightarrow> (bool \<times> error option) \<times> request list" where
  "terraformCloudSecretBackendRoleExists c d h =
     (let path = role_id d in
      case Logical c (Read path) h of
        (Failed err, h1) \<Rightarrow>
          ((False, Some (Error (''error reading role configuration for '' @ go_quote path
             @ '': '' @ err))), h1)
      | (secret, h1) \<Rightarrow> ((secret \<noteq> Absent, None), h1))"

section \<open>The identity entity alias\<close>

definition identityEntityAliasPath :: string where
  "identityEntityAliasPath = ''/identity/entity-alias''"

definition identityEntityAliasNamePath :: "string \<Rightarrow> string" where
  "identityEntityAliasNamePath name = identityEntityAliasPath @ ''/name/'' @ name"

definition identityEntityAliasIDPath :: "string \<Rightarrow> string" where
  "identityEntityAliasIDPath id' = identityEntityAliasPath @ ''/id/'' @ id'"




definition identityEntityAliasRead ::
  "client \<Rightarrow> alias_data \<Rightarrow> request list \<Rightarrow> error option \<times> alias_data \<times> request list" where
  "identityEntityAliasRead c d h =
     (let id' = alias_id d;
          path = identityEntityAliasIDPath id'
      in case Logical c (Read path) h of
           (Failed err, h1) \<Rightarrow>
             (Some (Error (''error reading IdentityEntityAlias '' @ go_quote id' @ '': '' @ err)), d, h1)
         | (Absent, h1) \<Rightarrow> (None, d\<lparr>alias_id := []\<rparr>, h1)
         | (Found data, h1) \<Rightarrow>
             (case index data ''id'' of
                VString i \<Rightarrow>
                  (let d = d\<lparr>alias_id := i\<rparr>;
                       failed = (\<lambda>k err. Some (Error (''error setting state key '' @ go_quote k
                          @ '' on IdentityEntityAlias '' @ go_quote id' @ '':  err='' @ go_quote (message err))))
                   in case Set_string (index data ''name'') of
                        Inl err \<Rightarrow> (failed ''name'' err, d, h1)
                      | Inr v \<Rightarrow>
                     (let d = d\<lparr>alias_name := v\<rparr> in
                      case Set_string (index data ''mount_accessor'') of
                        Inl err \<Rightarrow> (failed ''mount_accessor'' err, d, h1)
                      | Inr v \<Rightarrow>
                     (let d = d\<lparr>alias_mount_accessor := v\<rparr> in
                      case Set_string (index data ''canonical_id'') of
                        Inl err \<Rightarrow> (failed ''canonical_id'' err, d, h1)
                      | Inr v \<Rightarrow>
                     (let d = d\<lparr>alias_canonical_id := v\<rparr> in
                      case Set_map (index data ''custom_metadata'') of
                        Inl err \<Rightarrow> (failed ''custom_metadata'' err, d, h1)
                      | Inr v \<Rightarrow> (None, d\<lparr>alias_custom_metadata := v\<rparr>, h1)))))
              | _ \<Rightarrow> (Some (Panic ''interface conversion: interface {} is not string''), d, h1)))"



text \<open>
  The payload of \<^verbatim>\<open>identityEntityAliasUpdate\<close>: the three fields as the remote has
  them, each replaced by the local value when \<^verbatim>\<open>GetOk\<close> reports one, and the
  local custom metadata.
\<close>

definition identityEntityAliasUpdatePayload ::
  "(string \<times> val) list \<Rightarrow> alias_data \<Rightarrow> (string \<times> val) list" where
  "identityEntityAliasUpdatePayload respData d =
     (let data = [(''name'', index respData ''name''),
                  (''mount_accessor'', index respData ''mount_accessor''),
                  (''canonical_id'', index respData ''canonical_id'')];
          data = (case GetOk_string (alias_name d) of
                    (name, ok) \<Rightarrow> if ok then assign data ''name'' (VString name) else data);
          data = (case GetOk_string (alias_mount_accessor d) of
                    (mountAccessor, ok) \<Rightarrow>
                      if ok then assign data ''mount_accessor'' (VString mountAccessor) else data);
          data = (case GetOk_string (alias_canonical_id d) of
                    (canonicalID, ok) \<Rightarrow>
                      if ok then assign data ''canonical_id'' (VString canonicalID) else data);
          data = assign data ''custom_metadata'' (VMap (Get_map (alias_custom_metadata d)))
      in data)"

definition identityEntityAliasUpdate ::
  "client \<Rightarrow> alias_data \<Rightarrow> request list \<Rightarrow> error option \<times> alias_data \<times> request list" where
  "identityEntityAliasUpdate c d h =
     (let id' = alias_id d;
          path = identityEntityAliasIDPath id'
      in case Logical c (Read path) h of
           (Failed err, h1) \<Rightarrow>
             (Some (Error (''error updating IdentityEntityAlias '' @ go_quote id' @ '': '' @ err)), d, h1)
         | (Absent, h1) \<Rightarrow>
             (Some (Panic ''runtime error: invalid memory address or nil pointer dereference''), d, h1)
         | (Found respData, h1) \<Rightarrow>
             (let data = identityEntityAliasUpdatePayload respData d in
              case Logical c (Write path data) h1 of
                (Failed err, h2) \<Rightarrow>
                  (Some (Error (''error updating IdentityEntityAlias '' @ go_quote id' @ '': '' @ err)),
                   d, h2)
              | (resp, h2) \<Rightarrow> identityEntityAliasRead c d h2))"

definition identityEntityAliasDelete ::
  "client \<Rightarrow> alias_data \<Rightarrow> request list \<Rightarrow> error option \<times> alias_data \<times> request list" where
  "identityEntityAliasDelete c d h =
     (let id' = alias_id d;
          path = identityEntityAliasIDPath id'
      in case Logical c (Delete path) h of
           (Failed err, h1) \<Rightarrow> (Some (Error (''error IdentityEntityAlias '' @ go_quote id')), d, h1)
         | (resp, h1) \<Rightarrow> (None, d, h1))"

definition identityEntityAliasExists ::
  "client \<Rightarrow> alias_data \<Rightarrow> request list \<Rightarrow> (bool \<times> error option) \<times> request list" where
  "identityEntityAliasExists c d h =
     (let id' = alias_id d;
          path = identityEntityAliasIDPath id';
          key = id';
          (key, path) = (if length id' = 0
                         then (Get_string (alias_name d),
                               identityEntityAliasNamePath (Get_string (alias_name d)))
                         else (key, path))
      in case Logical c (Read path) h of
           (Failed err, h1) \<Rightarrow>
             ((True, Some (Error (''error checking if IdentityEntityAlias '' @ go_quote key
                @ '' exists: '' @ err))), h1)
         | (resp, h1) \<Rightarrow> ((resp \<noteq> Absent, None), h1))"

section \<open>Example inputs\<close>

text \<open>
  Concrete resource data and remotes, on which the theorems below are run. The remotes
  answer by the kind of the last request.
\<close>

definition example_role :: role_data where
  "example_role =
     \<lparr>role_id = ''tfc/role/admin'', role_name = Some ''admin'', role_path = None,
      role_backend = Some ''tfc/'', role_organization = Some ''hashicorp'',
      role_team_id = None, role_user_id = None, role_max_ttl = Some 0, role_ttl = Some 0\<rparr>"

definition example_role_300 :: role_data where
  "example_role_300 = example_role\<lparr>role_ttl := Some 300\<rparr>"



definition example_alias :: alias_data where
  "example_alias =
     \<lparr>alias_id = ''a-1'', alias_name = Some ''bob'', alias_mount_accessor = Some ''auth_1'',
      alias_canonical_id = Some ''e-1'',
      alias_custom_metadata = Some [(''team'', VString ''blue'')]\<rparr>"

definition example_alias_metadata_only :: alias_data where
  "example_alias_metadata_only =
     \<lparr>alias_id = ''a-1'', alias_name = None, alias_mount_accessor = None,
      alias_canonical_id = None,
      alias_custom_metadata = Some [(''team'', VString ''blue'')]\<rparr>"

definition example_alias_no_id :: alias_data where
  "example_alias_no_id = example_alias\<lparr>alias_id := []\<rparr>"


definition absent_remote :: client where
  "absent_remote h = Absent"

definition failing_remote :: client where
  "failing_remote h = Failed ''connection refused''"

definition stored_alias :: "(string \<times> val) list" where
  "stored_alias =
     [(''id'', VString ''a-1''), (''name'', VString ''alice''),
      (''mount_accessor'', VString ''auth_0''), (''canonical_id'', VString ''e-0''),
      (''custom_metadata'', VMap [(''team'', VString ''red''), (''site'', VString ''north'')])]"

definition stored_remote :: client where
  "stored_remote h =
     (case rev h of
        Read p # earlier \<Rightarrow> Found stored_alias
      | r # earlier \<Rightarrow> Absent
      | [] \<Rightarrow> Absent)"





definition role_secret :: "(string \<times> val) list" where
  "role_secret = [(''organization'', VString ''hashicorp''), (''max_ttl'', VInt 0), (''ttl'', VInt 0)]"

definition role_remote :: client where
  "role_remote h =
     (case rev h of
        Read p # earlier \<Rightarrow> Found role_secret
      | r # earlier \<Rightarrow> Absent
      | [] \<Rightarrow> Absent)"


section \<open>The round trip of a role path\<close>









section \<open>Reading a role\<close>

lemma parse_example:
  "terraformCloudSecretBackendRoleNameFromPath ''tfc/role/admin'' = Inr ''admin''"
  "terraformCloudSecretBackendRoleBackendFromPath ''tfc/role/admin'' = Inr ''tfc''"
  by (simp_all add: terraformCloudSecretBackendRoleBackendFromPath_def
        terraformCloudSecretBackendRoleNameFromPath_def
        terraformCloudSecretBackendRoleBackendFromPathRegex_def
        terraformCloudSecretBackendRoleNameFromPathRegex_def
        MatchString_def lit_def eos_def)

text \<open>
  C2, as amended. For every role whose stored id parses as a role path and names a
  remote object that no longer exists (the remote read returns no object and no
  transport error), Read fails with the error \<^verbatim>\<open>resource not found\<close> and leaves the
  resource data, the stored id included, as it was.
\<close>

theorem role_read_absent:
  assumes "terraformCloudSecretBackendRoleNameFromPath (role_id d) = Inr name"
    and "terraformCloudSecretBackendRoleBackendFromPath (role_id d) = Inr backend"
    and "c (h @ [Read (role_id d)]) = Absent"
  shows "terraformCloudSecretBackendRoleRead c d h =
           (Some (Error ''resource not found''), d, h @ [Read (role_id d)])"
  using assms by (simp add: terraformCloudSecretBackendRoleRead_def Logical_def)

theorem role_read_absent_witness:
  "terraformCloudSecretBackendRoleRead absent_remote example_role [] =
     (Some (Error ''resource not found''), example_role, [Read ''tfc/role/admin''])"
proof -
  have i: "role_id example_role = ''tfc/role/admin''" by (simp add: example_role_def)
  have "terraformCloudSecretBackendRoleNameFromPath (role_id example_role) = Inr ''admin''"
    and "terraformCloudSecretBackendRoleBackendFromPath (role_id example_role) = Inr ''tfc''"
    and "absent_remote ([] @ [Read (role_id example_role)]) = Absent"
    by (simp_all add: i parse_example absent_remote_def)
  from role_read_absent [of example_role "''admin''" "''tfc''" absent_remote "[]", OF this] i
  show ?thesis by simp
qed

text \<open>
  The claim as stated fails: on the role \<^verbatim>\<open>tfc/role/admin\<close> and a remote that holds
  nothing, Read returns the error and the stored id is still \<^verbatim>\<open>tfc/role/admin\<close>, not
  empty.
\<close>

theorem role_read_absent_counterexample:
  "absent_remote [Read ''tfc/role/admin''] = Absent
   \<and> role_id example_role = ''tfc/role/admin''
   \<and> fst (terraformCloudSecretBackendRoleRead absent_remote example_role []) =
       Some (Error ''resource not found'')
   \<and> role_id (fst (snd (terraformCloudSecretBackendRoleRead absent_remote example_role []))) =
       ''tfc/role/admin''"
  by (simp add: terraformCloudSecretBackendRoleRead_def Logical_def absent_remote_def
      example_role_def parse_example Let_def)

section \<open>Writing a role\<close>

text \<open>When a backend is found, the first request of the handler is the write of the payload.\<close>

lemma role_write_requests:
  assumes "terraformCloudSecretBackendRoleGetBackend d \<noteq> []"
  shows "\<exists>rest. snd (snd (terraformCloudSecretBackendRoleWrite c d h)) =
           h @ Write (terraformCloudSecretBackendRolePath
                        (terraformCloudSecretBackendRoleGetBackend d) (Get_string (role_name d)))
                     (terraformCloudSecretBackendRoleWritePayload d) # rest"
  using assms
  by (auto simp: terraformCloudSecretBackendRoleWrite_def terraformCloudSecretBackendRoleRead_def
      Logical_def Let_def split: response.splits sum.splits)

lemma map_of_assign: "map_of (assign m k v) = (map_of m)(k \<mapsto> v)"
  by (simp add: assign_def update_conv')

lemma role_payload_ttl:
  "map_of (terraformCloudSecretBackendRoleWritePayload d) ''ttl'' = map_option VInt (role_ttl d)"
  by (cases "role_ttl d")
    (simp_all add: terraformCloudSecretBackendRoleWritePayload_def map_of_assign Let_def
      GetOkExists_int_def GetOkExists_string_def Get_int_def)

lemma role_payload_max_ttl:
  "map_of (terraformCloudSecretBackendRoleWritePayload d) ''max_ttl'' = map_option VInt (role_max_ttl d)"
  by (cases "role_max_ttl d")
    (simp_all add: terraformCloudSecretBackendRoleWritePayload_def map_of_assign Let_def
      GetOkExists_int_def GetOkExists_string_def Get_int_def)

text \<open>
  C5, as amended. For every role Create/Update that reaches the remote write, the
  payload holds \<^verbatim>\<open>ttl\<close> (and \<^verbatim>\<open>max_ttl\<close>) with its value whenever the attribute
  exists in the resource data, zero included: a \<^verbatim>\<open>ttl\<close> of 0 is sent as 0 and a
  \<^verbatim>\<open>ttl\<close> of 300 as 300. The key is left out only when the attribute does not exist.
\<close>

theorem role_write_ttl:
  assumes "terraformCloudSecretBackendRoleGetBackend d \<noteq> []"
  shows "(\<exists>rest. snd (snd (terraformCloudSecretBackendRoleWrite c d h)) =
           h @ Write (terraformCloudSecretBackendRolePath
                        (terraformCloudSecretBackendRoleGetBackend d) (Get_string (role_name d)))
                     (terraformCloudSecretBackendRoleWritePayload d) # rest)
       \<and> map_of (terraformCloudSecretBackendRoleWritePayload d) ''ttl'' = map_option VInt (role_ttl d)
       \<and> map_of (terraformCloudSecretBackendRoleWritePayload d) ''max_ttl'' =
           map_option VInt (role_max_ttl d)"
  using role_write_requests [OF assms] role_payload_ttl role_payload_max_ttl by blast

lemma example_role_fields:
  "role_id example_role = ''tfc/role/admin''" "role_name example_role = Some ''admin''"
  "role_path example_role = None" "role_backend example_role = Some ''tfc/''"
  "role_organization example_role = Some ''hashicorp''" "role_team_id example_role = None"
  "role_user_id example_role = None" "role_max_ttl example_role = Some 0"
  "role_ttl example_role = Some 0"
  by (simp_all add: example_role_def)

lemma example_role_payload:
  "terraformCloudSecretBackendRoleWritePayload example_role =
     [(''max_ttl'', VInt 0), (''ttl'', VInt 0), (''organization'', VString ''hashicorp'')]"
  by (simp add: terraformCloudSecretBackendRoleWritePayload_def example_role_fields
      assign_def GetOkExists_int_def GetOkExists_string_def Get_int_def Get_string_def)

lemma example_role_path:
  "terraformCloudSecretBackendRolePath ''tfc/'' ''admin'' = ''tfc/role/admin''"
  by (simp add: terraformCloudSecretBackendRolePath_def trim_slash_def)

text \<open>On a remote that answers every read with a role, a write that finds a backend succeeds.\<close>

lemma role_write_found_requests:
  assumes "terraformCloudSecretBackendRoleGetBackend d = b" "b \<noteq> []"
    and "terraformCloudSecretBackendRolePath b (Get_string (role_name d)) = ''tfc/role/admin''"
  shows "fst (terraformCloudSecretBackendRoleWrite role_remote d []) = None
       \<and> snd (snd (terraformCloudSecretBackendRoleWrite role_remote d [])) =
           [Write ''tfc/role/admin'' (terraformCloudSecretBackendRoleWritePayload d),
            Read ''tfc/role/admin'']"
  using assms
  by (simp add: terraformCloudSecretBackendRoleWrite_def terraformCloudSecretBackendRoleRead_def
      Logical_def Let_def parse_example role_remote_def)

lemma example_backend: "terraformCloudSecretBackendRoleGetBackend example_role = ''tfc/''"
  by (simp add: terraformCloudSecretBackendRoleGetBackend_def example_role_fields
      GetOk_string_def Get_string_def)

text \<open>
  The claim as stated fails: the role with \<^verbatim>\<open>ttl\<close> and \<^verbatim>\<open>max_ttl\<close> of 0 is
  written with both keys in the payload.
\<close>

theorem role_write_ttl_counterexample:
  "role_ttl example_role = Some 0 \<and> role_max_ttl example_role = Some 0
   \<and> snd (snd (terraformCloudSecretBackendRoleWrite role_remote example_role [])) =
       [Write ''tfc/role/admin''
          [(''max_ttl'', VInt 0), (''ttl'', VInt 0), (''organization'', VString ''hashicorp'')],
        Read ''tfc/role/admin'']"
  using role_write_found_requests [of example_role "''tfc/''"]
  by (simp add: example_backend example_role_fields Get_string_def example_role_path
      example_role_payload)

theorem role_write_ttl_witness:
  "terraformCloudSecretBackendRoleGetBackend example_role_300 \<noteq> []
   \<and> role_ttl example_role_300 = Some 300
   \<and> map_of (terraformCloudSecretBackendRoleWritePayload example_role_300) ''ttl'' = Some (VInt 300)
   \<and> map_of (terraformCloudSecretBackendRoleWritePayload example_role_300) ''max_ttl'' = Some (VInt 0)
   \<and> (\<exists>rest. snd (snd (terraformCloudSecretBackendRoleWrite role_remote example_role_300 [])) =
         Write ''tfc/role/admin'' (terraformCloudSecretBackendRoleWritePayload example_role_300) # rest)"
proof -
  have b: "terraformCloudSecretBackendRoleGetBackend example_role_300 = ''tfc/''"
    by (simp add: terraformCloudSecretBackendRoleGetBackend_def example_role_300_def
        example_role_def GetOk_string_def Get_string_def)
  then have n: "terraformCloudSecretBackendRoleGetBackend example_role_300 \<noteq> []" by simp
  have p: "terraformCloudSecretBackendRolePath ''tfc/'' (Get_string (role_name example_role_300))
      = ''tfc/role/admin''"
    by (simp add: terraformCloudSecretBackendRolePath_def trim_slash_def Get_string_def
        example_role_300_def example_role_def)
  have t: "role_ttl example_role_300 = Some 300" "role_max_ttl example_role_300 = Some 0"
    by (simp_all add: example_role_300_def example_role_def)
  from role_write_ttl [OF n, of role_remote "[]"] b p t n show ?thesis by simp
qed





section \<open>The alias handlers on a missing object and on a failing remote\<close>

text \<open>
  C7. For every alias whose remote object no longer exists (the read at the id path
  returns no object and no transport error), Read empties the stored id and returns no
  error.
\<close>

theorem alias_read_absent:
  assumes "c (h @ [Read (identityEntityAliasIDPath (alias_id d))]) = Absent"
  shows "identityEntityAliasRead c d h =
           (None, d\<lparr>alias_id := []\<rparr>, h @ [Read (identityEntityAliasIDPath (alias_id d))])"
  using assms by (simp add: identityEntityAliasRead_def Logical_def Let_def)

theorem alias_read_absent_witness:
  "absent_remote [Read ''/identity/entity-alias/id/a-1''] = Absent
   \<and> identityEntityAliasRead absent_remote example_alias [] =
       (None, example_alias\<lparr>alias_id := []\<rparr>, [Read ''/identity/entity-alias/id/a-1''])"
proof -
  have p: "identityEntityAliasIDPath (alias_id example_alias) = ''/identity/entity-alias/id/a-1''"
    by (simp add: identityEntityAliasIDPath_def identityEntityAliasPath_def example_alias_def)
  have a: "absent_remote ([] @ [Read (identityEntityAliasIDPath (alias_id example_alias))]) = Absent"
    by (simp add: absent_remote_def)
  from alias_read_absent [where c = absent_remote and d = example_alias and h = "[]", OF a] p
  show ?thesis by (simp add: absent_remote_def)
qed

text \<open>
  C9. For every alias Delete in which the remote delete returns a transport error,
  the handler returns an error whose message is \<^verbatim>\<open>error IdentityEntityAlias\<close> and the
  quoted id: the text of the transport error is not part of it, whatever that text is.
\<close>

theorem alias_delete_error:
  assumes "c (h @ [Delete (identityEntityAliasIDPath (alias_id d))]) = Failed err"
  shows "identityEntityAliasDelete c d h =
           (Some (Error (''error IdentityEntityAlias '' @ go_quote (alias_id d))), d,
            h @ [Delete (identityEntityAliasIDPath (alias_id d))])"
  using assms by (simp add: identityEntityAliasDelete_def Logical_def Let_def)

theorem alias_delete_error_witness:
  "failing_remote [Delete ''/identity/entity-alias/id/a-1''] = Failed ''connection refused''
   \<and> identityEntityAliasDelete failing_remote example_alias [] =
       (Some (Error (''error IdentityEntityAlias '' @ [CHR 0x22] @ ''a-1'' @ [CHR 0x22])),
        example_alias, [Delete ''/identity/entity-alias/id/a-1''])"
proof -
  have p: "identityEntityAliasIDPath (alias_id example_alias) = ''/identity/entity-alias/id/a-1''"
    by (simp add: identityEntityAliasIDPath_def identityEntityAliasPath_def example_alias_def)
  have q: "go_quote (alias_id example_alias) = [CHR 0x22] @ ''a-1'' @ [CHR 0x22]"
    by (simp add: go_quote_def quote_char_def example_alias_def)
  have a: "failing_remote ([] @ [Delete (identityEntityAliasIDPath (alias_id example_alias))])
      = Failed ''connection refused''"
    by (simp add: failing_remote_def)
  from alias_delete_error [where c = failing_remote and d = example_alias and h = "[]", OF a] p q
  show ?thesis by (simp add: failing_remote_def)
qed

text \<open>
  C10. When the read that starts an alias Update returns no object and no error, the
  handler panics on the nil response: it returns no error value and sends no write.
\<close>

theorem alias_update_absent_panics:
  assumes "c (h @ [Read (identityEntityAliasIDPath (alias_id d))]) = Absent"
  shows "identityEntityAliasUpdate c d h =
           (Some (Panic ''runtime error: invalid memory address or nil pointer dereference''), d,
            h @ [Read (identityEntityAliasIDPath (alias_id d))])"
  using assms by (simp add: identityEntityAliasUpdate_def Logical_def Let_def)

theorem alias_update_absent_panics_witness:
  "absent_remote [Read ''/identity/entity-alias/id/a-1''] = Absent
   \<and> identityEntityAliasUpdate absent_remote example_alias [] =
       (Some (Panic ''runtime error: invalid memory address or nil pointer dereference''), example_alias,
        [Read ''/identity/entity-alias/id/a-1''])"
proof -
  have p: "identityEntityAliasIDPath (alias_id example_alias) = ''/identity/entity-alias/id/a-1''"
    by (simp add: identityEntityAliasIDPath_def identityEntityAliasPath_def example_alias_def)
  have a: "absent_remote ([] @ [Read (identityEntityAliasIDPath (alias_id example_alias))]) = Absent"
    by (simp add: absent_remote_def)
  from alias_update_absent_panics [where c = absent_remote and d = example_alias and h = "[]", OF a] p
  show ?thesis by (simp add: absent_remote_def)
qed

section \<open>The existence of an alias\<close>

text \<open>
  C8. An alias Exists with an empty id reads the path of the name,
  \<^verbatim>\<open>/identity/entity-alias/name/{name}\<close>, and with an id the path of the id,
  \<^verbatim>\<open>/identity/entity-alias/id/{id}\<close>; it sends no other request. When the read
  returns, the answer is true if the path holds an object and false if it holds none.
  When the read fails with a transport error, the handler returns that error (wrapped),
  with the flag true.
\<close>

theorem alias_exists_path:
  assumes "q = (if alias_id d = []
                then ''/identity/entity-alias/name/'' @ Get_string (alias_name d)
                else ''/identity/entity-alias/id/'' @ alias_id d)"
  shows "snd (identityEntityAliasExists c d h) = h @ [Read q]
   \<and> (c (h @ [Read q]) = Found secret \<longrightarrow>
        fst (identityEntityAliasExists c d h) = (True, None))
   \<and> (c (h @ [Read q]) = Absent \<longrightarrow>
        fst (identityEntityAliasExists c d h) = (False, None))
   \<and> (c (h @ [Read q]) = Failed err \<longrightarrow>
        fst (identityEntityAliasExists c d h) =
          (True, Some (Error (''error checking if IdentityEntityAlias ''
             @ go_quote (if alias_id d = [] then Get_string (alias_name d) else alias_id d)
             @ '' exists: '' @ err))))"
  using assms
  by (auto simp: identityEntityAliasExists_def identityEntityAliasNamePath_def
      identityEntityAliasIDPath_def identityEntityAliasPath_def Logical_def Let_def
      split: response.splits)

theorem alias_exists_path_witness:
  "alias_id example_alias_no_id = [] \<and> alias_id example_alias = ''a-1''
   \<and> identityEntityAliasExists stored_remote example_alias_no_id [] =
       ((True, None), [Read ''/identity/entity-alias/name/bob''])
   \<and> identityEntityAliasExists absent_remote example_alias_no_id [] =
       ((False, None), [Read ''/identity/entity-alias/name/bob''])
   \<and> identityEntityAliasExists stored_remote example_alias [] =
       ((True, None), [Read ''/identity/entity-alias/id/a-1''])
   \<and> identityEntityAliasExists failing_remote example_alias_no_id [] =
       ((True, Some (Error (''error checking if IdentityEntityAlias '' @ go_quote ''bob''
           @ '' exists: connection refused''))),
        [Read ''/identity/entity-alias/name/bob''])"
proof -
  have f: "alias_id example_alias_no_id = []" "alias_id example_alias = ''a-1''"
    "Get_string (alias_name example_alias_no_id) = ''bob''"
    by (simp_all add: example_alias_no_id_def example_alias_def Get_string_def)
  have r: "stored_remote [Read p] = Found stored_alias" "absent_remote [Read p] = Absent"
    "failing_remote [Read p] = Failed ''connection refused''" for p
    by (simp_all add: stored_remote_def absent_remote_def failing_remote_def)
  from alias_exists_path [where c = stored_remote and d = example_alias_no_id and h = "[]"
      and secret = stored_alias and q = "''/identity/entity-alias/name/bob''"] f r
  have 1: "identityEntityAliasExists stored_remote example_alias_no_id [] =
       ((True, None), [Read ''/identity/entity-alias/name/bob''])"
    by (simp add: prod_eq_iff)
  from alias_exists_path [where c = absent_remote and d = example_alias_no_id and h = "[]"
      and q = "''/identity/entity-alias/name/bob''"] f r
  have 2: "identityEntityAliasExists absent_remote example_alias_no_id [] =
       ((False, None), [Read ''/identity/entity-alias/name/bob''])"
    by (simp add: prod_eq_iff)
  from alias_exists_path [where c = stored_remote and d = example_alias and h = "[]"
      and secret = stored_alias and q = "''/identity/entity-alias/id/a-1''"] f r
  have 3: "identityEntityAliasExists stored_remote example_alias [] =
       ((True, None), [Read ''/identity/entity-alias/id/a-1''])"
    by (simp add: prod_eq_iff)
  from alias_exists_path [where c = failing_remote and d = example_alias_no_id and h = "[]"
      and err = "''connection refused''" and q = "''/identity/entity-alias/name/bob''"] f r
  have 4: "identityEntityAliasExists failing_remote example_alias_no_id [] =
       ((True, Some (Error (''error checking if IdentityEntityAlias '' @ go_quote ''bob''
           @ '' exists: connection refused''))),
        [Read ''/identity/entity-alias/name/bob''])"
    by (simp add: prod_eq_iff)
  from f 1 2 3 4 show ?thesis by simp
qed

section \<open>Creating an alias that the remote has merged\<close>












section \<open>Updating an alias\<close>

lemma index_assign: "index (assign m k v) k' = (if k' = k then v else index m k')"
  by (simp add: index_def map_of_assign)

lemma index_Cons: "index ((k, v) # m) k' = (if k' = k then v else index m k')"
  by (simp add: index_def)

text \<open>When the first read finds the alias, the next request is the write of the payload.\<close>

lemma alias_update_requests:
  assumes "c (h @ [Read (identityEntityAliasIDPath (alias_id d))]) = Found respData"
  shows "\<exists>rest. snd (snd (identityEntityAliasUpdate c d h)) =
           h @ Read (identityEntityAliasIDPath (alias_id d))
             # Write (identityEntityAliasIDPath (alias_id d))
                     (identityEntityAliasUpdatePayload respData d) # rest"
proof -
  let ?p = "identityEntityAliasIDPath (alias_id d)"
  let ?h2 = "h @ [Read ?p, Write ?p (identityEntityAliasUpdatePayload respData d)]"
  have r: "\<exists>rest. snd (snd (identityEntityAliasRead c d ?h2)) = ?h2 @ rest"
    by (auto simp: identityEntityAliasRead_def Logical_def Let_def
        split: response.splits val.splits sum.splits)
  show ?thesis
  proof (cases "c ?h2")
    case (Failed err)
    with assms show ?thesis
      by (simp add: identityEntityAliasUpdate_def Logical_def Let_def)
  next
    case Absent
    with assms r show ?thesis
      by (auto simp: identityEntityAliasUpdate_def Logical_def Let_def)
  next
    case (Found s)
    with assms r show ?thesis
      by (auto simp: identityEntityAliasUpdate_def Logical_def Let_def)
  qed
qed

lemma GetOk_string_set:
  "snd (GetOk_string a) \<longleftrightarrow> a \<notin> {None, Some []}"
  by (cases a) (simp_all add: GetOk_string_def Get_string_def)

lemma GetOk_string_fst: "fst (GetOk_string a) = Get_string a"
  by (simp add: GetOk_string_def)

lemma alias_update_payload_name:
  "index (identityEntityAliasUpdatePayload respData d) ''name'' =
     (if alias_name d \<in> {None, Some []} then index respData ''name''
      else VString (Get_string (alias_name d)))"
  using GetOk_string_set [of "alias_name d"]
  by (simp add: identityEntityAliasUpdatePayload_def Let_def index_assign index_Cons
      split_beta GetOk_string_fst del: insert_iff)

lemma alias_update_payload_mount_accessor:
  "index (identityEntityAliasUpdatePayload respData d) ''mount_accessor'' =
     (if alias_mount_accessor d \<in> {None, Some []} then index respData ''mount_accessor''
      else VString (Get_string (alias_mount_accessor d)))"
  using GetOk_string_set [of "alias_mount_accessor d"]
  by (simp add: identityEntityAliasUpdatePayload_def Let_def index_assign index_Cons
      split_beta GetOk_string_fst del: insert_iff)

lemma alias_update_payload_canonical_id:
  "index (identityEntityAliasUpdatePayload respData d) ''canonical_id'' =
     (if alias_canonical_id d \<in> {None, Some []} then index respData ''canonical_id''
      else VString (Get_string (alias_canonical_id d)))"
  using GetOk_string_set [of "alias_canonical_id d"]
  by (simp add: identityEntityAliasUpdatePayload_def Let_def index_assign index_Cons
      split_beta GetOk_string_fst del: insert_iff)

lemma alias_update_payload_custom_metadata:
  "index (identityEntityAliasUpdatePayload respData d) ''custom_metadata'' =
     VMap (Get_map (alias_custom_metadata d))"
  by (simp add: identityEntityAliasUpdatePayload_def Let_def index_assign split_beta)

lemma alias_update_payload_keys:
  "map fst (identityEntityAliasUpdatePayload respData d) =
     [''name'', ''mount_accessor'', ''canonical_id'', ''custom_metadata'']"
  by (simp add: identityEntityAliasUpdatePayload_def Let_def assign_def split_beta)

lemma alias_update_payload_metadata_only:
  assumes "alias_name d = None" "alias_mount_accessor d = None" "alias_canonical_id d = None"
  shows "identityEntityAliasUpdatePayload respData d =
     [(''name'', index respData ''name''),
      (''mount_accessor'', index respData ''mount_accessor''),
      (''canonical_id'', index respData ''canonical_id''),
      (''custom_metadata'', VMap (Get_map (alias_custom_metadata d)))]"
  using assms
  by (simp add: identityEntityAliasUpdatePayload_def Let_def assign_def GetOk_string_def)

text \<open>
  C4. For every alias Update whose first read finds the remote object, the handler
  reads the object at the id path and then writes, at the same path, a payload of four
  keys. Each of \<^verbatim>\<open>name\<close>, \<^verbatim>\<open>mount_accessor\<close> and \<^verbatim>\<open>canonical_id\<close> holds the
  local value when the description sets one that is not empty, and the value the
  remote returned otherwise. \<^verbatim>\<open>custom_metadata\<close> holds the local map, whatever the
  remote map was: it is replaced as a whole. In particular, when the description sets
  only \<^verbatim>\<open>custom_metadata\<close>, the three other keys are written with the remote values.
\<close>

theorem alias_update_overlay:
  assumes "c (h @ [Read (identityEntityAliasIDPath (alias_id d))]) = Found respData"
    and "payload = identityEntityAliasUpdatePayload respData d"
  shows "(\<exists>rest. snd (snd (identityEntityAliasUpdate c d h)) =
            h @ Read (''/identity/entity-alias/id/'' @ alias_id d)
              # Write (''/identity/entity-alias/id/'' @ alias_id d) payload # rest)
       \<and> map fst payload = [''name'', ''mount_accessor'', ''canonical_id'', ''custom_metadata'']
       \<and> index payload ''name'' =
           (if alias_name d \<in> {None, Some []} then index respData ''name''
            else VString (Get_string (alias_name d)))
       \<and> index payload ''mount_accessor'' =
           (if alias_mount_accessor d \<in> {None, Some []} then index respData ''mount_accessor''
            else VString (Get_string (alias_mount_accessor d)))
       \<and> index payload ''canonical_id'' =
           (if alias_canonical_id d \<in> {None, Some []} then index respData ''canonical_id''
            else VString (Get_string (alias_canonical_id d)))
       \<and> index payload ''custom_metadata'' = VMap (Get_map (alias_custom_metadata d))
       \<and> (alias_name d = None \<and> alias_mount_accessor d = None \<and> alias_canonical_id d = None
          \<longrightarrow> payload =
                [(''name'', index respData ''name''),
                 (''mount_accessor'', index respData ''mount_accessor''),
                 (''canonical_id'', index respData ''canonical_id''),
                 (''custom_metadata'', VMap (Get_map (alias_custom_metadata d)))])"
proof -
  have p: "identityEntityAliasIDPath (alias_id d) = ''/identity/entity-alias/id/'' @ alias_id d"
    by (simp add: identityEntityAliasIDPath_def identityEntityAliasPath_def)
  from alias_update_requests [where c = c and h = h and d = d and respData = respData]
    assms p
  have 1: "\<exists>rest. snd (snd (identityEntityAliasUpdate c d h)) =
            h @ Read (''/identity/entity-alias/id/'' @ alias_id d)
              # Write (''/identity/entity-alias/id/'' @ alias_id d) payload # rest"
    by simp
  have 2: "alias_name d = None \<and> alias_mount_accessor d = None \<and> alias_canonical_id d = None
          \<longrightarrow> payload =
                [(''name'', index respData ''name''),
                 (''mount_accessor'', index respData ''mount_accessor''),
                 (''canonical_id'', index respData ''canonical_id''),
                 (''custom_metadata'', VMap (Get_map (alias_custom_metadata d)))]"
    using assms(2) alias_update_payload_metadata_only [of d respData] by blast
  from 1 2 show ?thesis
    unfolding assms(2)
    using alias_update_payload_keys [of respData d] alias_update_payload_name [of respData d]
      alias_update_payload_mount_accessor [of respData d]
      alias_update_payload_canonical_id [of respData d]
      alias_update_payload_custom_metadata [of respData d]
    by blast
qed

theorem alias_update_overlay_witness:
  "stored_remote [Read ''/identity/entity-alias/id/a-1''] = Found stored_alias
   \<and> index stored_alias ''custom_metadata'' =
       VMap [(''team'', VString ''red''), (''site'', VString ''north'')]
   \<and> (\<exists>rest. snd (snd (identityEntityAliasUpdate stored_remote example_alias_metadata_only [])) =
         Read ''/identity/entity-alias/id/a-1''
           # Write ''/identity/entity-alias/id/a-1''
               [(''name'', VString ''alice''), (''mount_accessor'', VString ''auth_0''),
                (''canonical_id'', VString ''e-0''),
                (''custom_metadata'', VMap [(''team'', VString ''blue'')])] # rest)
   \<and> (\<exists>payload rest. snd (snd (identityEntityAliasUpdate stored_remote example_alias [])) =
         Read ''/identity/entity-alias/id/a-1''
           # Write ''/identity/entity-alias/id/a-1'' payload # rest
       \<and> index payload ''name'' = VString ''bob''
       \<and> index payload ''mount_accessor'' = VString ''auth_1''
       \<and> index payload ''canonical_id'' = VString ''e-1''
       \<and> index payload ''custom_metadata'' = VMap [(''team'', VString ''blue'')])"
proof -
  have i: "alias_id example_alias_metadata_only = ''a-1''" "alias_id example_alias = ''a-1''"
    by (simp_all add: example_alias_metadata_only_def example_alias_def)
  have r: "stored_remote [Read ''/identity/entity-alias/id/a-1''] = Found stored_alias"
    by (simp add: stored_remote_def)
  have ip: "identityEntityAliasIDPath ''a-1'' = ''/identity/entity-alias/id/a-1''"
    by (simp add: identityEntityAliasIDPath_def identityEntityAliasPath_def)
  have m: "alias_name example_alias_metadata_only = None"
    "alias_mount_accessor example_alias_metadata_only = None"
    "alias_canonical_id example_alias_metadata_only = None"
    "Get_map (alias_custom_metadata example_alias_metadata_only) = [(''team'', VString ''blue'')]"
    by (simp_all add: example_alias_metadata_only_def Get_map_def)
  have s: "index stored_alias ''name'' = VString ''alice''"
    "index stored_alias ''mount_accessor'' = VString ''auth_0''"
    "index stored_alias ''canonical_id'' = VString ''e-0''"
    "index stored_alias ''custom_metadata'' =
       VMap [(''team'', VString ''red''), (''site'', VString ''north'')]"
    by (simp_all add: stored_alias_def index_def)
  have a: "alias_name example_alias = Some ''bob''"
    "alias_mount_accessor example_alias = Some ''auth_1''"
    "alias_canonical_id example_alias = Some ''e-1''"
    "Get_string (alias_name example_alias) = ''bob''"
    "Get_string (alias_mount_accessor example_alias) = ''auth_1''"
    "Get_string (alias_canonical_id example_alias) = ''e-1''"
    "Get_map (alias_custom_metadata example_alias) = [(''team'', VString ''blue'')]"
    by (simp_all add: example_alias_def Get_string_def Get_map_def)
  have r1: "stored_remote ([] @ [Read (identityEntityAliasIDPath
      (alias_id example_alias_metadata_only))]) = Found stored_alias"
    by (simp add: i ip r)
  have r2: "stored_remote ([] @ [Read (identityEntityAliasIDPath (alias_id example_alias))])
      = Found stored_alias"
    by (simp add: i ip r)
  note w1 = alias_update_overlay [where c = stored_remote and d = example_alias_metadata_only
      and h = "[]" and respData = stored_alias
      and payload = "identityEntityAliasUpdatePayload stored_alias example_alias_metadata_only",
      OF r1 refl]
  from w1 m have p1: "identityEntityAliasUpdatePayload stored_alias example_alias_metadata_only =
      [(''name'', VString ''alice''), (''mount_accessor'', VString ''auth_0''),
       (''canonical_id'', VString ''e-0''),
       (''custom_metadata'', VMap [(''team'', VString ''blue'')])]"
    by (simp add: s)
  from w1 have 1:
    "\<exists>rest. snd (snd (identityEntityAliasUpdate stored_remote example_alias_metadata_only [])) =
         Read ''/identity/entity-alias/id/a-1''
           # Write ''/identity/entity-alias/id/a-1''
               [(''name'', VString ''alice''), (''mount_accessor'', VString ''auth_0''),
                (''canonical_id'', VString ''e-0''),
                (''custom_metadata'', VMap [(''team'', VString ''blue'')])] # rest"
    unfolding p1 by (simp add: i)
  note w2 = alias_update_overlay [where c = stored_remote and d = example_alias
      and h = "[]" and respData = stored_alias
      and payload = "identityEntityAliasUpdatePayload stored_alias example_alias", OF r2 refl]
  from w2 a have 2:
    "\<exists>payload rest. snd (snd (identityEntityAliasUpdate stored_remote example_alias [])) =
         Read ''/identity/entity-alias/id/a-1''
           # Write ''/identity/entity-alias/id/a-1'' payload # rest
       \<and> index payload ''name'' = VString ''bob''
       \<and> index payload ''mount_accessor'' = VString ''auth_1''
       \<and> index payload ''canonical_id'' = VString ''e-1''
       \<and> index payload ''custom_metadata'' = VMap [(''team'', VString ''blue'')]"
    by (simp add: i) blast
  from r s(4) 1 2 show ?thesis by blast
qed

end
